theory Spec2Isabelle
  imports Main "HOL-Library.Sublist"
begin

section \<open>Python strings\<close>

text \<open>
  A Python \<open>str\<close> is a sequence of code points; it is modelled as a \<open>string\<close>, one
  \<open>char\<close> per code point, which covers the code points below 256 (ASCII and Latin-1).
  On these, \<open>str.lower\<close> works code point by code point: \<open>A\<close>..\<open>Z\<close> and the
  Latin-1 capitals 192..222 (without the multiplication sign 215) move up by 32, every
  other code point is kept.
\<close>

definition lower_char :: "char \<Rightarrow> char" where
  "lower_char c =
     (let n = (of_char c :: nat)
      in if (65 \<le> n \<and> n \<le> 90) \<or> (192 \<le> n \<and> n \<le> 222 \<and> n \<noteq> 215)
         then char_of (n + 32) else c)"

definition lower :: "string \<Rightarrow> string" where
  "lower s = map lower_char s"

text \<open>\<open>needle in hay\<close> on two strings: \<open>needle\<close> occurs in \<open>hay\<close> as a contiguous block.\<close>

definition str_in :: "string \<Rightarrow> string \<Rightarrow> bool" where
  "str_in needle hay = sublist needle hay"

text \<open>
  \<open>str.isspace\<close> on one code point below 256, and \<open>str.strip()\<close>, which drops the
  white space at both ends.
\<close>

definition isspace :: "char \<Rightarrow> bool" where
  "isspace c =
     (let n = (of_char c :: nat)
      in (9 \<le> n \<and> n \<le> 13) \<or> (28 \<le> n \<and> n \<le> 32) \<or> n = 133 \<or> n = 160)"

definition strip :: "string \<Rightarrow> string" where
  "strip s = rev (dropWhile isspace (rev (dropWhile isspace s)))"

text \<open>What an f-string writes for a value that is a \<open>str\<close> or \<open>None\<close>.\<close>

fun format_value :: "string option \<Rightarrow> string" where
  "format_value None = ''None''"
| "format_value (Some s) = s"

section \<open>Severity\<close>

text \<open>
  \<open>determine_severity\<close> returns one of the keys of \<open>SEVERITY_LEVELS\<close>, a string.
\<close>

definition determine_severity :: "string \<Rightarrow> string" where
  "determine_severity warning_title =
     (let title_lower = lower warning_title
      in if str_in ''cancellation'' title_lower then ''All Clear''
         else if str_in ''tornado'' title_lower \<or> str_in ''destructive'' title_lower
           then ''Deadly''
         else if str_in ''severe'' title_lower \<or> str_in ''fire'' title_lower
           then ''Major''
         else if str_in ''strong wind'' title_lower \<or> str_in ''hazardous surf'' title_lower
           then ''Minor''
         else ''Default'')"

subsection \<open>The classifier as the ordered rule list describes it\<close>

datatype tier = AllClear | Minor | Major | Deadly | Default

fun tier_name :: "tier \<Rightarrow> string" where
  "tier_name AllClear = ''All Clear''"
| "tier_name Minor = ''Minor''"
| "tier_name Major = ''Major''"
| "tier_name Deadly = ''Deadly''"
| "tier_name Default = ''Default''"

text \<open>
  Two code points are equal up to case when they have one lower-case form; a keyword
  occurs in a title up to case when some block of the title, as long as the keyword,
  equals it code point by code point up to case.
\<close>

definition ci_eq :: "char \<Rightarrow> char \<Rightarrow> bool" where
  "ci_eq c d = (lower_char c = lower_char d)"

fun ci_prefix :: "string \<Rightarrow> string \<Rightarrow> bool" where
  "ci_prefix [] t = True"
| "ci_prefix (k # ks) [] = False"
| "ci_prefix (k # ks) (c # cs) = (ci_eq k c \<and> ci_prefix ks cs)"

fun ci_contains :: "string \<Rightarrow> string \<Rightarrow> bool" where
  "ci_contains kw [] = ci_prefix kw []"
| "ci_contains kw (c # cs) = (ci_prefix kw (c # cs) \<or> ci_contains kw cs)"

definition rule_list :: "(string list \<times> tier) list" where
  "rule_list =
     [([''cancellation''], AllClear),
      ([''tornado'', ''destructive''], Deadly),
      ([''severe'', ''fire''], Major),
      ([''strong wind'', ''hazardous surf''], Minor)]"

fun first_match :: "(string list \<times> tier) list \<Rightarrow> string \<Rightarrow> tier" where
  "first_match [] title = Default"
| "first_match ((kws, t) # rules) title =
     (if list_ex (\<lambda>kw. ci_contains kw title) kws then t else first_match rules title)"

definition classify :: "string \<Rightarrow> tier" where
  "classify title = first_match rule_list title"

section \<open>Exceptions\<close>

text \<open>
  The exception classes that can reach a handler of the program. \<open>ErrorPerm\<close> is
  \<open>ftplib.error_perm\<close> (a 5xx reply, such as 550 for a file that is not there);
  \<open>ErrorTemp\<close>, \<open>ErrorReply\<close>, \<open>ErrorProto\<close> and \<open>EOFError\<close> are the other protocol
  failures of \<open>ftplib\<close>; \<open>OSError\<close> stands for time-outs, name resolution failures and
  refused connections; \<open>ParseError\<close> is raised by \<open>ET.parse\<close>, \<open>TclError\<close> by tkinter.
  \<open>KeyboardInterrupt\<close> is the only one that is not an \<open>Exception\<close>.
\<close>

datatype exn =
    ErrorPerm | ErrorTemp | ErrorReply | ErrorProto | EOFError | OSError
  | ParseError | AttributeError | TypeError | TclError | KeyboardInterrupt

definition is_Exception :: "exn \<Rightarrow> bool" where
  "is_Exception e = (e \<noteq> KeyboardInterrupt)"

section \<open>The parsed document\<close>

text \<open>
  An \<open>xml.etree.ElementTree\<close> element: tag, attributes, the text before the first child
  (\<open>None\<close> when there is none) and the children in document order.
\<close>

datatype element =
  Element (elem_tag: string) (elem_attrib: "(string \<times> string) list")
          (elem_text: "string option") (elem_children: "element list")

fun iter :: "element \<Rightarrow> element list" where
  "iter (Element t a x cs) = Element t a x cs # concat (map iter cs)"

text \<open>
  The steps of the paths handed to \<open>root.find\<close>: \<open>.//tag\<close> selects the proper descendants
  with that tag in document order, \<open>[@key='value']\<close> keeps the elements with that attribute
  value, \<open>/tag\<close> selects the children with that tag; \<open>find\<close> returns the first element
  selected, or \<open>None\<close>.
\<close>

definition descendant :: "string \<Rightarrow> element \<Rightarrow> element list" where
  "descendant t root = filter (\<lambda>e. elem_tag e = t) (concat (map iter (elem_children root)))"

definition attr_is :: "string \<Rightarrow> string \<Rightarrow> element list \<Rightarrow> element list" where
  "attr_is k v es = filter (\<lambda>e. map_of (elem_attrib e) k = Some v) es"

definition child :: "string \<Rightarrow> element list \<Rightarrow> element list" where
  "child t es = concat (map (\<lambda>e. filter (\<lambda>c. elem_tag c = t) (elem_children e)) es)"

definition first_of :: "element list \<Rightarrow> element option" where
  "first_of es = (case es of [] \<Rightarrow> None | e # _ \<Rightarrow> Some e)"

definition find_area :: "element \<Rightarrow> element option" where
  "find_area root =
     first_of (child ''p'' (attr_is ''type'' ''warning_area_summary'' (descendant ''text'' root)))"

definition find_title :: "element \<Rightarrow> element option" where
  "find_title root =
     first_of (child ''p'' (attr_is ''type'' ''warning_title'' (descendant ''text'' root)))"

definition find_headline :: "element \<Rightarrow> element option" where
  "find_headline root =
     first_of (attr_is ''type'' ''warning_headline'' (descendant ''text'' root))"

definition find_situation :: "element \<Rightarrow> element option" where
  "find_situation root =
     first_of (child ''p'' (attr_is ''type'' ''synoptic_situation'' (descendant ''text'' root)))"

definition find_identifier :: "element \<Rightarrow> element option" where
  "find_identifier root = first_of (child ''identifier'' (descendant ''amoc'' root))"

definition find_issue_time :: "element \<Rightarrow> element option" where
  "find_issue_time root = first_of (child ''issue-time-utc'' (descendant ''amoc'' root))"

text \<open>\<open>e.text\<close> where \<open>e\<close> is the result of a \<open>find\<close>: on \<open>None\<close> it raises.\<close>

definition text_of :: "element option \<Rightarrow> exn + string option" where
  "text_of found = (case found of None \<Rightarrow> Inl AttributeError | Some e \<Rightarrow> Inr (elem_text e))"

text \<open>\<open>a + b\<close> where each side is a \<open>str\<close> or \<open>None\<close>.\<close>

definition str_add :: "string option \<Rightarrow> string option \<Rightarrow> exn + string" where
  "str_add a b =
     (case a of None \<Rightarrow> Inl TypeError
      | Some x \<Rightarrow> (case b of None \<Rightarrow> Inl TypeError | Some y \<Rightarrow> Inr (x @ y)))"

text \<open>\<open>s.strip()\<close> where \<open>s\<close> is a \<open>str\<close> or \<open>None\<close>.\<close>

definition strip_of :: "string option \<Rightarrow> exn + string" where
  "strip_of s = (case s of None \<Rightarrow> Inl AttributeError | Some x \<Rightarrow> Inr (strip x))"

section \<open>Configuration, warnings and the extraction from a document\<close>

text \<open>
  The configuration is the dictionary that the setup writes to \<open>config.json\<close>, with its
  three keys, each a string; the warning is the dictionary that
  \<open>fetch_and_parse_warning\<close> returns, with the keys \<open>id\<close>, \<open>title\<close> and
  \<open>message\<close>.
\<close>

record config =
  state :: string
  town :: string
  warning_file :: string

record warning =
  w_id :: string
  w_title :: string
  w_message :: string

text \<open>
  Lines 143 to 162 and 169 of \<open>fetch_and_parse_warning\<close>: what happens to a parsed
  document. \<open>Inl\<close> is an exception raised on the way, \<open>Inr None\<close> the return of
  \<open>None\<close>, \<open>Inr (Some w)\<close> the return of the dictionary \<open>w\<close>.
\<close>

definition extract_warning :: "element \<Rightarrow> config \<Rightarrow> exn + warning option" where
  "extract_warning root config =
     (case find_area root of None \<Rightarrow> Inr None
      | Some area_element \<Rightarrow>
     (case elem_text area_element of None \<Rightarrow> Inr None
      | Some area_desc \<Rightarrow>
     (case text_of (find_identifier root) of Inl e \<Rightarrow> Inl e
      | Inr identifier \<Rightarrow>
     (case text_of (find_issue_time root) of Inl e \<Rightarrow> Inl e
      | Inr issue_time \<Rightarrow>
     (case str_add identifier issue_time of Inl e \<Rightarrow> Inl e
      | Inr warning_id \<Rightarrow>
       if str_in (lower (town config)) (lower area_desc) then
         (case text_of (find_title root) of Inl e \<Rightarrow> Inl e
          | Inr title \<Rightarrow>
         (case text_of (find_headline root) of Inl e \<Rightarrow> Inl e
          | Inr headline \<Rightarrow>
         (case text_of (find_situation root) of Inl e \<Rightarrow> Inl e
          | Inr situation \<Rightarrow>
         (let full_message = format_value headline @ [CHR 0x0A, CHR 0x0A] @ format_value situation
          in (case strip_of title of Inl e \<Rightarrow> Inl e
              | Inr stripped \<Rightarrow>
                Inr (Some \<lparr>w_id = warning_id, w_title = stripped,
                           w_message = strip full_message\<rparr>))))))
       else Inr None)))))"

section \<open>The world outside the program\<close>

text \<open>
  What the calls that leave the program do during one cycle: each call to the FTP
  server either succeeds (\<open>None\<close>, or \<open>Inr\<close> with the bytes retrieved for the command
  sent) or raises; \<open>ET.parse\<close> gives the root element for the bytes or raises; the tkinter
  calls that build the alert window and wait for a key either complete or raise.
\<close>

record env =
  ftp_connect :: "exn option"
  ftp_login :: "exn option"
  ftp_cwd :: "exn option"
  ftp_retrbinary :: "string \<Rightarrow> exn + string"
  ftp_quit :: "exn option"
  et_parse :: "string \<Rightarrow> exn + element"
  tk_present :: "exn option"

section \<open>Fetching\<close>

text \<open>
  The body of the \<open>try\<close> in \<open>fetch_and_parse_warning\<close>. The first component tells
  whether the connection is open when the body is left: it is opened by the constructor
  \<open>ftplib.FTP\<close> (a constructor that raises leaves no connection) and closed by a
  \<open>ftp.quit()\<close> that succeeds, the only call in the function that closes it.
\<close>

definition fetch_body :: "env \<Rightarrow> config \<Rightarrow> bool \<times> (exn + warning option)" where
  "fetch_body env config =
     (case ftp_connect env of Some e \<Rightarrow> (False, Inl e)
      | None \<Rightarrow>
     (case ftp_login env of Some e \<Rightarrow> (True, Inl e)
      | None \<Rightarrow>
     (case ftp_cwd env of Some e \<Rightarrow> (True, Inl e)
      | None \<Rightarrow>
     (case ftp_retrbinary env (''RETR '' @ warning_file config) of Inl e \<Rightarrow> (True, Inl e)
      | Inr flo \<Rightarrow>
     (case ftp_quit env of Some e \<Rightarrow> (True, Inl e)
      | None \<Rightarrow>
     (case et_parse env flo of Inl e \<Rightarrow> (False, Inl e)
      | Inr root \<Rightarrow> (False, extract_warning root config)))))))"

text \<open>The lines printed on the console.\<close>

datatype log_line = CheckError exn | CriticalError exn

record fetch_result =
  returned :: "exn + warning option"
  conn_open :: bool
  printed :: "log_line list"

text \<open>
  \<open>fetch_and_parse_warning\<close> with its two handlers: \<open>ftplib.error_perm\<close> returns
  \<open>None\<close> silently, any other \<open>Exception\<close> is printed and returns \<open>None\<close>; what is
  not an \<open>Exception\<close> leaves the function.
\<close>

definition fetch_and_parse_warning :: "env \<Rightarrow> config \<Rightarrow> fetch_result" where
  "fetch_and_parse_warning env config =
     (case fetch_body env config of
        (c, Inr r) \<Rightarrow> \<lparr>returned = Inr r, conn_open = c, printed = []\<rparr>
      | (c, Inl e) \<Rightarrow>
          if e = ErrorPerm then \<lparr>returned = Inr None, conn_open = c, printed = []\<rparr>
          else if is_Exception e
            then \<lparr>returned = Inr None, conn_open = c, printed = [CheckError e]\<rparr>
          else \<lparr>returned = Inl e, conn_open = c, printed = []\<rparr>)"

section \<open>Presenting an alert\<close>

text \<open>
  \<open>SEVERITY_LEVELS\<close> with the colour and the text colour of each level (the icons are
  left out), and the full-screen window shown for a warning, by its colours and texts.
\<close>

record level =
  color :: string
  text_color :: "string option"

definition SEVERITY_LEVELS :: "(string \<times> level) list" where
  "SEVERITY_LEVELS =
     [(''All Clear'', \<lparr>color = ''green'', text_color = None\<rparr>),
      (''Minor'', \<lparr>color = ''gold'', text_color = None\<rparr>),
      (''Major'', \<lparr>color = ''red'', text_color = None\<rparr>),
      (''Deadly'', \<lparr>color = ''black'', text_color = Some ''white''\<rparr>),
      (''Default'', \<lparr>color = ''darkorange'', text_color = None\<rparr>)]"

record alert =
  alert_bg :: string
  alert_fg :: string
  alert_title :: string
  alert_message :: string

text \<open>
  \<open>display_alert\<close>: \<open>Inr None\<close> when it returns without a window, \<open>Inr (Some a)\<close>
  when the window \<open>a\<close> was shown and closed, \<open>Inl e\<close> when tkinter raised.
\<close>

definition display_alert :: "env \<Rightarrow> warning \<Rightarrow> exn + alert option" where
  "display_alert env alert_data =
     (let severity_name = determine_severity (w_title alert_data);
          config = (case map_of SEVERITY_LEVELS severity_name of
                   None \<Rightarrow> \<lparr>color = ''darkorange'', text_color = None\<rparr>
                 | Some l \<Rightarrow> l)
      in if severity_name = ''All Clear'' then Inr None
         else (case tk_present env of
                 Some e \<Rightarrow> Inl e
               | None \<Rightarrow>
                   Inr (Some \<lparr>alert_bg = color config,
                              alert_fg = (case text_color config of None \<Rightarrow> ''black'' | Some c \<Rightarrow> c),
                              alert_title = w_title alert_data,
                              alert_message = w_message alert_data\<rparr>)))"

section \<open>The main loop\<close>

text \<open>
  The state of \<open>main_loop\<close>: the variable \<open>processed_warning_id\<close>, and what the loop
  has done so far: the warnings handed to \<open>display_alert\<close>, the alert windows shown and
  the lines printed.
\<close>

record loop_state =
  processed_warning_id :: "string option"
  display_calls :: "warning list"
  alerts :: "alert list"
  console :: "log_line list"

datatype control = Continue | Break

text \<open>
  One pass through the body of \<open>while True\<close>. Both the \<open>try\<close> body and the handler for
  \<open>Exception\<close> end with \<open>time.sleep(300)\<close> and go on to the next pass;
  \<open>KeyboardInterrupt\<close> leaves the loop.
\<close>

definition handle :: "exn \<Rightarrow> loop_state \<Rightarrow> control \<times> loop_state" where
  "handle e s =
     (if e = KeyboardInterrupt then (Break, s)
      else (Continue, s\<lparr>console := console s @ [CriticalError e]\<rparr>))"

definition cycle :: "env \<Rightarrow> config \<Rightarrow> loop_state \<Rightarrow> control \<times> loop_state" where
  "cycle env config s =
     (let r = fetch_and_parse_warning env config;
          s1 = s\<lparr>console := console s @ printed r\<rparr>
      in case returned r of
           Inl e \<Rightarrow> handle e s1
         | Inr None \<Rightarrow> (Continue, s1\<lparr>processed_warning_id := None\<rparr>)
         | Inr (Some warning) \<Rightarrow>
             if Some (w_id warning) \<noteq> processed_warning_id s1 then
               (let s2 = s1\<lparr>display_calls := display_calls s1 @ [warning]\<rparr>
                in case display_alert env warning of
                     Inl e \<Rightarrow> handle e s2
                   | Inr shown \<Rightarrow>
                       (Continue,
                        s2\<lparr>alerts := alerts s2 @ (case shown of None \<Rightarrow> [] | Some a \<Rightarrow> [a]),
                           processed_warning_id := Some (w_id warning)\<rparr>))
             else (Continue, s1))"

text \<open>
  \<open>main_loop\<close> over the worlds of its first passes, one per pass, from
  \<open>processed_warning_id = None\<close>. The loop of the program has no end of its own; the
  result is the state after the last of these passes, or after the pass that was
  interrupted.
\<close>

fun run_cycles :: "config \<Rightarrow> env list \<Rightarrow> loop_state \<Rightarrow> loop_state" where
  "run_cycles config [] s = s"
| "run_cycles config (env # envs) s =
     (case cycle env config s of
        (Break, s') \<Rightarrow> s'
      | (Continue, s') \<Rightarrow> run_cycles config envs s')"

definition main_loop :: "config \<Rightarrow> env list \<Rightarrow> loop_state" where
  "main_loop config envs =
     run_cycles config envs
       \<lparr>processed_warning_id = None, display_calls = [], alerts = [], console = []\<rparr>"

section \<open>Reaching a document, and sample inputs\<close>

text \<open>
  \<open>retrieves env config root\<close>: in the world \<open>env\<close> every FTP call succeeds and the
  bytes retrieved for the configured file parse to \<open>root\<close>.
\<close>

definition retrieves :: "env \<Rightarrow> config \<Rightarrow> element \<Rightarrow> bool" where
  "retrieves env config root =
     (ftp_connect env = None \<and> ftp_login env = None \<and> ftp_cwd env = None \<and>
      ftp_quit env = None \<and>
      (case ftp_retrbinary env (''RETR '' @ warning_file config) of
         Inl e \<Rightarrow> False
       | Inr flo \<Rightarrow> et_parse env flo = Inr root))"

definition ipswich :: config where
  "ipswich = \<lparr>state = ''Queensland'', town = ''Ipswich'', warning_file = ''IDQ21037.xml''\<rparr>"

text \<open>A bulletin of the feed with the given title and area summary.\<close>

definition bulletin :: "string \<Rightarrow> string \<Rightarrow> element" where
  "bulletin title area =
     Element ''product'' [] None
       [Element ''amoc'' [] None
          [Element ''identifier'' [] (Some ''IDQ21037'') [],
           Element ''issue-time-utc'' [] (Some ''2024-01-05T03:10:00Z'') []],
        Element ''warning'' [] None
          [Element ''warning-info'' [] None
             [Element ''text'' [(''type'', ''warning_title'')] None
                [Element ''p'' [] (Some title) []],
              Element ''text'' [(''type'', ''warning_headline'')]
                (Some ''for DAMAGING WINDS'') [],
              Element ''text'' [(''type'', ''warning_area_summary'')] None
                [Element ''p'' [] (Some area) []],
              Element ''text'' [(''type'', ''synoptic_situation'')] None
                [Element ''p'' [] (Some ''A trough is moving east.'') []]]]]"

text \<open>A bulletin that names the town but has no title section.\<close>

definition untitled_bulletin :: element where
  "untitled_bulletin =
     Element ''product'' [] None
       [Element ''amoc'' [] None
          [Element ''identifier'' [] (Some ''IDQ21037'') [],
           Element ''issue-time-utc'' [] (Some ''2024-01-05T03:10:00Z'') []],
        Element ''text'' [(''type'', ''warning_area_summary'')] None
          [Element ''p'' [] (Some ''Ipswich'') []]]"

text \<open>
  Worlds: a server that serves a file parsing to \<open>doc\<close>; the same with a tkinter
  that raises; a server on which the file is absent; a server that cannot be reached.
\<close>

definition serving :: "element \<Rightarrow> env" where
  "serving doc =
     \<lparr>ftp_connect = None, ftp_login = None, ftp_cwd = None,
      ftp_retrbinary = (\<lambda>cmd. if cmd = ''RETR IDQ21037.xml'' then Inr ''<product/>''
                              else Inl ErrorPerm),
      ftp_quit = None, et_parse = (\<lambda>flo. Inr doc), tk_present = None\<rparr>"

definition serving_tk_broken :: "element \<Rightarrow> env" where
  "serving_tk_broken doc = (serving doc)\<lparr>tk_present := Some TclError\<rparr>"

definition file_absent :: env where
  "file_absent =
     \<lparr>ftp_connect = None, ftp_login = None, ftp_cwd = None,
      ftp_retrbinary = (\<lambda>cmd. Inl ErrorPerm),
      ftp_quit = None, et_parse = (\<lambda>flo. Inl ParseError), tk_present = None\<rparr>"

definition network_down :: env where
  "network_down =
     \<lparr>ftp_connect = Some OSError, ftp_login = Some OSError, ftp_cwd = Some OSError,
      ftp_retrbinary = (\<lambda>cmd. Inl OSError),
      ftp_quit = Some OSError, et_parse = (\<lambda>flo. Inl ParseError), tk_present = None\<rparr>"

text \<open>The loop state in which the warning with identity \<open>i\<close> was the last one notified.\<close>

definition notified :: "string \<Rightarrow> loop_state" where
  "notified i = \<lparr>processed_warning_id = Some i, display_calls = [], alerts = [], console = []\<rparr>"

definition fresh :: loop_state where
  "fresh = \<lparr>processed_warning_id = None, display_calls = [], alerts = [], console = []\<rparr>"

text \<open>
  Two bulletins for the town and the warnings extracted from them: a severe thunderstorm
  warning, and its cancellation.
\<close>

definition thunderstorm_bulletin :: element where
  "thunderstorm_bulletin = bulletin ''Severe Thunderstorm Warning'' ''Ipswich and Lockyer Valley''"

definition thunderstorm :: warning where
  "thunderstorm =
     \<lparr>w_id = ''IDQ210372024-01-05T03:10:00Z'', w_title = ''Severe Thunderstorm Warning'',
      w_message = ''for DAMAGING WINDS'' @ [CHR 0x0A, CHR 0x0A] @ ''A trough is moving east.''\<rparr>"

definition cancellation_bulletin :: element where
  "cancellation_bulletin =
     bulletin ''Cancellation of Severe Thunderstorm Warning'' ''Ipswich and Lockyer Valley''"

definition cancellation :: warning where
  "cancellation =
     \<lparr>w_id = ''IDQ210372024-01-05T03:10:00Z'',
      w_title = ''Cancellation of Severe Thunderstorm Warning'',
      w_message = ''for DAMAGING WINDS'' @ [CHR 0x0A, CHR 0x0A] @ ''A trough is moving east.''\<rparr>"

section \<open>Properties of the classifier\<close>

lemma ci_prefix_lower: "ci_prefix kw t = prefix (lower kw) (lower t)"
  by (induction kw t rule: ci_prefix.induct) (auto simp: lower_def ci_eq_def)

lemma ci_contains_lower: "ci_contains kw t = str_in (lower kw) (lower t)"
  by (induction t) (auto simp: ci_prefix_lower str_in_def lower_def sublist_Cons_right)

lemma lower_keywords:
  "lower ''cancellation'' = ''cancellation''"
  "lower ''tornado'' = ''tornado''"
  "lower ''destructive'' = ''destructive''"
  "lower ''severe'' = ''severe''"
  "lower ''fire'' = ''fire''"
  "lower ''strong wind'' = ''strong wind''"
  "lower ''hazardous surf'' = ''hazardous surf''"
  by (simp_all add: lower_def lower_char_def)

lemma determine_severity_classify: "determine_severity title = tier_name (classify title)"
  using lower_keywords
  by (simp add: determine_severity_def classify_def rule_list_def ci_contains_lower Let_def)

lemma lower_append: "lower (a @ b) = lower a @ lower b"
  by (simp add: lower_def)

lemma str_in_block: "str_in kw (pre @ kw @ post)"
  by (simp add: str_in_def)

text \<open>
  Claim C4. For every title, \<open>determine_severity\<close> returns the name of the tier that the
  ordered rule list gives, keywords matched up to case and the first matching rule
  winning (no title makes it fail: it is a total function); and a title in which
  \<open>cancellation\<close> occurs in any mix of cases is \<open>All Clear\<close>, whatever else it contains.
\<close>

theorem determine_severity_rule_list:
  "determine_severity title = tier_name (classify title) \<and>
   (\<forall>pre mid post. lower mid = ''cancellation'' \<longrightarrow>
      determine_severity (pre @ mid @ post) = ''All Clear'')"
proof (intro conjI allI impI)
  show "determine_severity title = tier_name (classify title)"
    by (rule determine_severity_classify)
next
  fix pre mid post
  assume "lower mid = ''cancellation''"
  then have "str_in ''cancellation'' (lower (pre @ mid @ post))"
    using str_in_block [of "''cancellation''" "lower pre" "lower post"]
    by (simp add: lower_append)
  then show "determine_severity (pre @ mid @ post) = ''All Clear''"
    by (simp add: determine_severity_def)
qed

theorem determine_severity_rule_list_witness:
  "lower ''CanCELLATION'' = ''cancellation'' \<and>
   determine_severity (''Tornado warning: '' @ ''CanCELLATION'' @ '' of Severe Fire'')
     = ''All Clear'' \<and>
   determine_severity ''Hazardous Surf and Severe Weather'' = tier_name Major"
proof -
  have h: "lower ''CanCELLATION'' = ''cancellation''"
    by code_simp
  have c: "classify ''Hazardous Surf and Severe Weather'' = Major"
    by code_simp
  from determine_severity_rule_list [of "''Hazardous Surf and Severe Weather''"] h c
  show ?thesis by metis
qed

section \<open>What a fetch returns and what a pass of the loop does\<close>

lemma fetch_failure:
  assumes "fetch_body env config = (c, Inl e)" and "is_Exception e"
  shows "fetch_and_parse_warning env config =
           \<lparr>returned = Inr None, conn_open = c,
            printed = (if e = ErrorPerm then [] else [CheckError e])\<rparr>"
  using assms by (simp add: fetch_and_parse_warning_def)

lemma fetch_result_cases:
  "returned (fetch_and_parse_warning env config) = Inr (Some wn) \<Longrightarrow>
   printed (fetch_and_parse_warning env config) = []"
  by (auto simp: fetch_and_parse_warning_def split: prod.splits sum.splits if_splits)

lemma text_of_exn: "text_of x = Inl e \<Longrightarrow> e = AttributeError"
  by (auto simp: text_of_def split: option.splits)

lemma str_add_exn: "str_add a b = Inl e \<Longrightarrow> e = TypeError"
  by (auto simp: str_add_def split: option.splits)

lemma strip_of_exn: "strip_of a = Inl e \<Longrightarrow> e = AttributeError"
  by (auto simp: strip_of_def split: option.splits)

lemma extract_warning_exn:
  "extract_warning root config = Inl e \<Longrightarrow> e = AttributeError \<or> e = TypeError"
  unfolding extract_warning_def Let_def
  by (auto split: option.splits sum.splits if_splits dest: text_of_exn str_add_exn strip_of_exn)

lemma retrieves_fetch_body:
  "retrieves env config root \<Longrightarrow> fetch_body env config = (False, extract_warning root config)"
  by (auto simp: retrieves_def fetch_body_def split: sum.splits)

lemma retrieves_returned:
  assumes "retrieves env config root"
  shows "returned (fetch_and_parse_warning env config) =
           (case extract_warning root config of Inl e \<Rightarrow> Inr None | Inr r \<Rightarrow> Inr r)"
proof (cases "extract_warning root config")
  case (Inl e)
  then have "is_Exception e" using extract_warning_exn [of root config e]
    by (auto simp: is_Exception_def)
  moreover have "fetch_body env config = (False, Inl e)"
    using retrieves_fetch_body [OF assms] Inl by simp
  ultimately show ?thesis
    using Inl by (simp add: fetch_failure [of env config False e])
next
  case (Inr r)
  with assms show ?thesis
    by (simp add: fetch_and_parse_warning_def retrieves_fetch_body)
qed

lemma cycle_no_warning:
  assumes "returned (fetch_and_parse_warning env config) = Inr None"
  shows "cycle env config s =
           (Continue, s\<lparr>console := console s @ printed (fetch_and_parse_warning env config),
                        processed_warning_id := None\<rparr>)"
  using assms by (simp add: cycle_def Let_def)

lemma cycle_same:
  assumes "returned (fetch_and_parse_warning env config) = Inr (Some wn)"
    and "processed_warning_id s = Some (w_id wn)"
  shows "cycle env config s = (Continue, s)"
  using assms fetch_result_cases [OF assms(1)] by (simp add: cycle_def Let_def)

lemma cycle_novel:
  assumes "returned (fetch_and_parse_warning env config) = Inr (Some wn)"
    and "processed_warning_id s \<noteq> Some (w_id wn)"
  shows "cycle env config s =
           (case display_alert env wn of
              Inl e \<Rightarrow> handle e (s\<lparr>display_calls := display_calls s @ [wn]\<rparr>)
            | Inr shown \<Rightarrow>
                (Continue, s\<lparr>display_calls := display_calls s @ [wn],
                             alerts := alerts s @ (case shown of None \<Rightarrow> [] | Some a \<Rightarrow> [a]),
                             processed_warning_id := Some (w_id wn)\<rparr>))"
  using assms fetch_result_cases [OF assms(1)]
  by (auto simp: cycle_def Let_def split: sum.splits)

section \<open>The sample inputs evaluated\<close>

lemma fetch_thunderstorm:
  "returned (fetch_and_parse_warning (serving thunderstorm_bulletin) ipswich) = Inr (Some thunderstorm)"
  "returned (fetch_and_parse_warning (serving_tk_broken thunderstorm_bulletin) ipswich)
     = Inr (Some thunderstorm)"
  by code_simp+

lemma fetch_cancellation:
  "returned (fetch_and_parse_warning (serving cancellation_bulletin) ipswich) = Inr (Some cancellation)"
  by code_simp

lemma fetch_file_absent:
  "returned (fetch_and_parse_warning file_absent ipswich) = Inr None"
  by code_simp

lemma display_thunderstorm:
  "display_alert (serving thunderstorm_bulletin) thunderstorm =
     Inr (Some \<lparr>alert_bg = ''red'', alert_fg = ''black'', alert_title = w_title thunderstorm,
                alert_message = w_message thunderstorm\<rparr>)"
  "display_alert (serving_tk_broken thunderstorm_bulletin) thunderstorm = Inl TclError"
  by code_simp+

lemma untitled_bulletin_fetch:
  "extract_warning untitled_bulletin ipswich = Inl AttributeError"
  "fetch_and_parse_warning (serving untitled_bulletin) ipswich
     = \<lparr>returned = Inr None, conn_open = False, printed = [CheckError AttributeError]\<rparr>"
  by code_simp+

section \<open>Failures of the fetch\<close>

text \<open>
  Claim C1, as stated, fails: the server cannot be reached (\<open>OSError\<close> from the
  constructor), the handler inside \<open>fetch_and_parse_warning\<close> prints the error and
  returns \<open>None\<close>, and the loop, which had notified a warning, sets
  \<open>processed_warning_id\<close> to \<open>None\<close>.
\<close>

theorem failed_fetch_resets_tracker_counterexample:
  "fetch_body network_down ipswich = (False, Inl OSError) \<and>
   processed_warning_id (notified ''IDQ210372024-01-05T03:10:00Z'')
     = Some ''IDQ210372024-01-05T03:10:00Z'' \<and>
   cycle network_down ipswich (notified ''IDQ210372024-01-05T03:10:00Z'')
     = (Continue, \<lparr>processed_warning_id = None, display_calls = [], alerts = [],
                    console = [CheckError OSError]\<rparr>)"
  by (simp add: cycle_def fetch_and_parse_warning_def fetch_body_def network_down_def
      notified_def is_Exception_def)

text \<open>
  Claim C1, amended. When the body of the fetch raises any \<open>Exception\<close> (a network
  failure, a missing file, a parse failure or any other), the pass goes on as for
  "no warning": \<open>processed_warning_id\<close> becomes \<open>None\<close>, and the error is printed
  unless it is \<open>ftplib.error_perm\<close>. The pass leaves \<open>processed_warning_id\<close> as it
  was when the exception is raised by \<open>display_alert\<close>, which reaches the handler of
  the loop.
\<close>

theorem failed_cycle_tracker:
  "(\<forall>c e. fetch_body env config = (c, Inl e) \<and> is_Exception e \<longrightarrow>
      cycle env config s =
        (Continue, s\<lparr>console := console s @ (if e = ErrorPerm then [] else [CheckError e]),
                     processed_warning_id := None\<rparr>)) \<and>
   (\<forall>wn e. returned (fetch_and_parse_warning env config) = Inr (Some wn) \<and>
      processed_warning_id s \<noteq> Some (w_id wn) \<and> display_alert env wn = Inl e \<longrightarrow>
      processed_warning_id (snd (cycle env config s)) = processed_warning_id s)"
proof (intro conjI allI impI)
  fix c e
  assume "fetch_body env config = (c, Inl e) \<and> is_Exception e"
  then have "fetch_and_parse_warning env config =
           \<lparr>returned = Inr None, conn_open = c,
            printed = (if e = ErrorPerm then [] else [CheckError e])\<rparr>"
    by (simp add: fetch_failure)
  then show "cycle env config s =
        (Continue, s\<lparr>console := console s @ (if e = ErrorPerm then [] else [CheckError e]),
                     processed_warning_id := None\<rparr>)"
    by (simp add: cycle_def)
next
  fix wn e
  assume a: "returned (fetch_and_parse_warning env config) = Inr (Some wn) \<and>
      processed_warning_id s \<noteq> Some (w_id wn) \<and> display_alert env wn = Inl e"
  then have "cycle env config s = handle e (s\<lparr>display_calls := display_calls s @ [wn]\<rparr>)"
    by (simp add: cycle_novel)
  then show "processed_warning_id (snd (cycle env config s)) = processed_warning_id s"
    by (simp add: handle_def)
qed



theorem failed_cycle_tracker_witness:
  "fetch_body network_down ipswich = (False, Inl OSError) \<and> is_Exception OSError \<and>
   cycle network_down ipswich (notified (w_id thunderstorm)) =
     (Continue, (notified (w_id thunderstorm))
        \<lparr>console := console (notified (w_id thunderstorm)) @ [CheckError OSError],
         processed_warning_id := None\<rparr>) \<and>
   returned (fetch_and_parse_warning (serving_tk_broken thunderstorm_bulletin) ipswich)
     = Inr (Some thunderstorm) \<and>
   processed_warning_id fresh \<noteq> Some (w_id thunderstorm) \<and>
   display_alert (serving_tk_broken thunderstorm_bulletin) thunderstorm = Inl TclError \<and>
   processed_warning_id (snd (cycle (serving_tk_broken thunderstorm_bulletin) ipswich fresh))
     = processed_warning_id fresh"
proof -
  have a: "fetch_body network_down ipswich = (False, Inl OSError)"
    by (simp add: fetch_body_def network_down_def)
  have b: "is_Exception OSError"
    by (simp add: is_Exception_def)
  have n: "processed_warning_id fresh \<noteq> Some (w_id thunderstorm)"
    by (simp add: fresh_def)
  from failed_cycle_tracker [of network_down ipswich "notified (w_id thunderstorm)"]
  have "fetch_body network_down ipswich = (False, Inl OSError) \<and> is_Exception OSError \<longrightarrow>
     cycle network_down ipswich (notified (w_id thunderstorm)) =
     (Continue, (notified (w_id thunderstorm))
        \<lparr>console := console (notified (w_id thunderstorm))
                     @ (if OSError = ErrorPerm then [] else [CheckError OSError]),
         processed_warning_id := None\<rparr>)"
    by blast
  with a b
  have "cycle network_down ipswich (notified (w_id thunderstorm)) =
     (Continue, (notified (w_id thunderstorm))
        \<lparr>console := console (notified (w_id thunderstorm)) @ [CheckError OSError],
         processed_warning_id := None\<rparr>)"
    by simp
  moreover
  from failed_cycle_tracker [of "serving_tk_broken thunderstorm_bulletin" ipswich fresh]
    fetch_thunderstorm(2) n display_thunderstorm(2)
  have "processed_warning_id (snd (cycle (serving_tk_broken thunderstorm_bulletin) ipswich fresh))
     = processed_warning_id fresh"
    by blast
  ultimately show ?thesis
    using a b n fetch_thunderstorm(2) display_thunderstorm(2) by simp
qed

text \<open>
  Claim C2, as stated, fails: a file that is absent (\<open>ftplib.error_perm\<close> from
  \<open>RETR\<close>) and a server that cannot be reached (\<open>OSError\<close>) give the caller the
  same value.
\<close>

theorem fetch_failures_same_value_counterexample:
  "fetch_body file_absent ipswich = (True, Inl ErrorPerm) \<and>
   fetch_body network_down ipswich = (False, Inl OSError) \<and>
   returned (fetch_and_parse_warning file_absent ipswich)
     = returned (fetch_and_parse_warning network_down ipswich)"
  by (simp add: fetch_and_parse_warning_def fetch_body_def network_down_def file_absent_def
      is_Exception_def)

text \<open>
  Claim C2, amended. Whatever \<open>Exception\<close> the body of the fetch raises, the function
  raises nothing and returns \<open>None\<close>, the value it also returns for "no occurrence";
  a missing file and the other failures differ only in the line printed: none for
  \<open>ftplib.error_perm\<close>, one for every other exception.
\<close>

theorem fetch_failures_return_none:
  assumes "fetch_body env config = (c, Inl e)" and "is_Exception e"
  shows "returned (fetch_and_parse_warning env config) = Inr None \<and>
         printed (fetch_and_parse_warning env config)
           = (if e = ErrorPerm then [] else [CheckError e])"
  using fetch_failure [OF assms] by simp


theorem fetch_failures_return_none_witness:
  "fetch_body file_absent ipswich = (True, Inl ErrorPerm) \<and> is_Exception ErrorPerm \<and>
   returned (fetch_and_parse_warning file_absent ipswich) = Inr None \<and>
   printed (fetch_and_parse_warning file_absent ipswich) = [] \<and>
   fetch_body network_down ipswich = (False, Inl OSError) \<and> is_Exception OSError \<and>
   returned (fetch_and_parse_warning network_down ipswich) = Inr None \<and>
   printed (fetch_and_parse_warning network_down ipswich) = [CheckError OSError]"
proof -
  have a: "fetch_body file_absent ipswich = (True, Inl ErrorPerm)"
    by (simp add: fetch_body_def file_absent_def)
  have b: "fetch_body network_down ipswich = (False, Inl OSError)"
    by (simp add: fetch_body_def network_down_def)
  have c: "is_Exception ErrorPerm" "is_Exception OSError"
    by (simp_all add: is_Exception_def)
  from fetch_failures_return_none [OF a c(1)] fetch_failures_return_none [OF b c(2)] a b c
  show ?thesis by simp
qed

section \<open>The connection\<close>

lemma conn_open_fetch:
  "conn_open (fetch_and_parse_warning env config) = fst (fetch_body env config)"
  by (simp add: fetch_and_parse_warning_def split: prod.splits sum.splits)

lemma conn_open_iff:
  "conn_open (fetch_and_parse_warning env config) =
     (ftp_connect env = None \<and>
      (ftp_login env \<noteq> None \<or> ftp_cwd env \<noteq> None \<or>
       (case ftp_retrbinary env (''RETR '' @ warning_file config) of
          Inl e \<Rightarrow> True | Inr flo \<Rightarrow> ftp_quit env \<noteq> None)))"
  by (auto simp: conn_open_fetch fetch_body_def split: option.splits sum.splits)

text \<open>
  Claim C3 on the path of a missing file: login and directory change succeed, \<open>RETR\<close>
  raises \<open>ftplib.error_perm\<close>, the function returns \<open>None\<close> and \<open>ftp.quit()\<close>
  was never called: the connection is open when the call returns.
\<close>

theorem not_found_leaves_connection_open:
  "fetch_body file_absent ipswich = (True, Inl ErrorPerm) \<and>
   fetch_and_parse_warning file_absent ipswich
     = \<lparr>returned = Inr None, conn_open = True, printed = []\<rparr>"
  by (simp add: fetch_and_parse_warning_def fetch_body_def file_absent_def)

section \<open>Extraction\<close>

text \<open>
  Claim C5. For a document that was retrieved and parsed and any town: when the
  area-summary paragraph is absent, or has no text (the parser gives \<open>None\<close> for an
  element without text; an empty string counts too, for a town that is not empty), or
  has a text that does not contain the town up to case, the function returns \<open>None\<close>
  and the extraction yields no warning.
\<close>

theorem no_occurrence_extracted:
  assumes "retrieves env config root"
    and "find_area root = None \<or>
         (\<exists>a. find_area root = Some a \<and>
            (elem_text a = None \<or> (elem_text a = Some [] \<and> town config \<noteq> []) \<or>
             (\<exists>d. elem_text a = Some d \<and> \<not> str_in (lower (town config)) (lower d))))"
  shows "returned (fetch_and_parse_warning env config) = Inr None \<and>
         (\<forall>wn. extract_warning root config \<noteq> Inr (Some wn))"
proof -
  have "\<forall>wn. extract_warning root config \<noteq> Inr (Some wn)"
    using assms(2) unfolding extract_warning_def Let_def
    by (auto simp: str_in_def lower_def split: option.splits sum.splits)
  then show ?thesis
    using retrieves_returned [OF assms(1)]
    by (cases "extract_warning root config") auto
qed



theorem no_occurrence_extracted_witness:
  "retrieves (serving (bulletin ''Severe Thunderstorm Warning'' ''Brisbane and surrounding suburbs''))
     ipswich (bulletin ''Severe Thunderstorm Warning'' ''Brisbane and surrounding suburbs'') \<and>
   find_area (bulletin ''Severe Thunderstorm Warning'' ''Brisbane and surrounding suburbs'')
     = Some (Element ''p'' [] (Some ''Brisbane and surrounding suburbs'') []) \<and>
   \<not> str_in (lower (town ipswich)) (lower ''Brisbane and surrounding suburbs'') \<and>
   returned (fetch_and_parse_warning
     (serving (bulletin ''Severe Thunderstorm Warning'' ''Brisbane and surrounding suburbs''))
     ipswich) = Inr None \<and>
   retrieves (serving (Element ''product'' [] None [])) ipswich (Element ''product'' [] None []) \<and>
   find_area (Element ''product'' [] None []) = None \<and>
   returned (fetch_and_parse_warning (serving (Element ''product'' [] None [])) ipswich)
     = Inr None"
proof -
  let ?B = "bulletin ''Severe Thunderstorm Warning'' ''Brisbane and surrounding suburbs''"
  let ?E = "Element ''product'' [] None []"
  have r: "retrieves (serving ?B) ipswich ?B" "retrieves (serving ?E) ipswich ?E"
    by (simp_all add: retrieves_def serving_def ipswich_def)
  have f: "find_area ?B = Some (Element ''p'' [] (Some ''Brisbane and surrounding suburbs'') [])"
    by code_simp
  have n: "\<not> str_in (lower (town ipswich)) (lower ''Brisbane and surrounding suburbs'')"
    by code_simp
  have g: "find_area ?E = None"
    by code_simp
  from no_occurrence_extracted [OF r(1)] f n
  have "returned (fetch_and_parse_warning (serving ?B) ipswich) = Inr None"
    by simp
  moreover from no_occurrence_extracted [OF r(2)] g
  have "returned (fetch_and_parse_warning (serving ?E) ipswich) = Inr None"
    by simp
  ultimately show ?thesis
    using r f n g by simp
qed

text \<open>
  Claim C6. For a document that is complete (identifier, issue time, title, headline
  and situation are found and have text) and whose area summary contains the town up to
  case, the warning returned has as \<open>id\<close> the identifier followed by the issue time,
  as \<open>title\<close> the title stripped, and as \<open>message\<close> the headline, two newlines and
  the situation, stripped.
\<close>

theorem occurrence_extracted:
  assumes "Option.bind (find_area root) elem_text = Some area_desc"
    and "str_in (lower (town config)) (lower area_desc)"
    and "Option.bind (find_identifier root) elem_text = Some identifier"
    and "Option.bind (find_issue_time root) elem_text = Some issue_time"
    and "Option.bind (find_title root) elem_text = Some title"
    and "Option.bind (find_headline root) elem_text = Some headline"
    and "Option.bind (find_situation root) elem_text = Some situation"
  shows "extract_warning root config =
           Inr (Some \<lparr>w_id = identifier @ issue_time, w_title = strip title,
                      w_message = strip (headline @ [CHR 0x0A, CHR 0x0A] @ situation)\<rparr>) \<and>
         (\<forall>env. retrieves env config root \<longrightarrow>
            returned (fetch_and_parse_warning env config) =
              Inr (Some \<lparr>w_id = identifier @ issue_time, w_title = strip title,
                         w_message = strip (headline @ [CHR 0x0A, CHR 0x0A] @ situation)\<rparr>))"
proof -
  have e: "extract_warning root config =
           Inr (Some \<lparr>w_id = identifier @ issue_time, w_title = strip title,
                      w_message = strip (headline @ [CHR 0x0A, CHR 0x0A] @ situation)\<rparr>)"
    using assms unfolding extract_warning_def Let_def
    by (auto simp: text_of_def str_add_def strip_of_def split: option.splits Option.bind_splits)
  then show ?thesis
    by (auto simp: retrieves_returned)
qed



theorem occurrence_extracted_witness:
  "Option.bind (find_area (bulletin '' Severe Thunderstorm Warning  '' ''Brisbane, IPSWICH and Logan''))
     elem_text = Some ''Brisbane, IPSWICH and Logan'' \<and>
   str_in (lower (town ipswich)) (lower ''Brisbane, IPSWICH and Logan'') \<and>
   retrieves (serving (bulletin '' Severe Thunderstorm Warning  '' ''Brisbane, IPSWICH and Logan''))
     ipswich (bulletin '' Severe Thunderstorm Warning  '' ''Brisbane, IPSWICH and Logan'') \<and>
   returned (fetch_and_parse_warning
     (serving (bulletin '' Severe Thunderstorm Warning  '' ''Brisbane, IPSWICH and Logan''))
     ipswich)
   = Inr (Some \<lparr>w_id = ''IDQ210372024-01-05T03:10:00Z'',
                 w_title = ''Severe Thunderstorm Warning'',
                 w_message = ''for DAMAGING WINDS'' @ [CHR 0x0A, CHR 0x0A]
                             @ ''A trough is moving east.''\<rparr>)"
proof -
  let ?B = "bulletin '' Severe Thunderstorm Warning  '' ''Brisbane, IPSWICH and Logan''"
  have a: "Option.bind (find_area ?B) elem_text = Some ''Brisbane, IPSWICH and Logan''"
    by code_simp
  have m: "str_in (lower (town ipswich)) (lower ''Brisbane, IPSWICH and Logan'')"
    by code_simp
  have i: "Option.bind (find_identifier ?B) elem_text = Some ''IDQ21037''"
    by code_simp
  have t: "Option.bind (find_issue_time ?B) elem_text = Some ''2024-01-05T03:10:00Z''"
    by code_simp
  have ti: "Option.bind (find_title ?B) elem_text = Some '' Severe Thunderstorm Warning  ''"
    by code_simp
  have h: "Option.bind (find_headline ?B) elem_text = Some ''for DAMAGING WINDS''"
    by code_simp
  have si: "Option.bind (find_situation ?B) elem_text = Some ''A trough is moving east.''"
    by code_simp
  have r: "retrieves (serving ?B) ipswich ?B"
    by (simp add: retrieves_def serving_def ipswich_def)
  have s1: "strip '' Severe Thunderstorm Warning  '' = ''Severe Thunderstorm Warning''"
    by code_simp
  have s2: "strip (''for DAMAGING WINDS'' @ [CHR 0x0A, CHR 0x0A] @ ''A trough is moving east.'')
              = ''for DAMAGING WINDS'' @ [CHR 0x0A, CHR 0x0A] @ ''A trough is moving east.''"
    by code_simp
  from occurrence_extracted [OF a m i t ti h si] r
  have "returned (fetch_and_parse_warning (serving ?B) ipswich)
        = Inr (Some \<lparr>w_id = ''IDQ21037'' @ ''2024-01-05T03:10:00Z'',
                 w_title = strip '' Severe Thunderstorm Warning  '',
                 w_message = strip (''for DAMAGING WINDS'' @ [CHR 0x0A, CHR 0x0A]
                             @ ''A trough is moving east.'')\<rparr>)"
    by blast
  then show ?thesis
    using a m r s1 s2 by simp
qed

section \<open>The tracker\<close>

text \<open>
  Claim C7. When the warning fetched has the identity stored in
  \<open>processed_warning_id\<close>, the pass changes nothing and \<open>display_alert\<close> is not
  called. So for the same warning on two passes in a row, first seen as new and
  presented without an exception, \<open>display_alert\<close> is called in the first pass only:
  the second pass leaves the state of the first.
\<close>

theorem same_occurrence_notified_once:
  assumes "returned (fetch_and_parse_warning env1 config) = Inr (Some wn)"
    and "returned (fetch_and_parse_warning env2 config) = Inr (Some wn)"
  shows "(processed_warning_id s = Some (w_id wn) \<longrightarrow> cycle env2 config s = (Continue, s)) \<and>
         (processed_warning_id s \<noteq> Some (w_id wn) \<longrightarrow>
            (\<forall>shown. display_alert env1 wn = Inr shown \<longrightarrow>
               display_calls (snd (cycle env1 config s)) = display_calls s @ [wn] \<and>
               run_cycles config [env1, env2] s = snd (cycle env1 config s)))"
proof (intro conjI allI impI)
  assume "processed_warning_id s = Some (w_id wn)"
  then show "cycle env2 config s = (Continue, s)"
    using assms(2) by (rule cycle_same [rotated])
next
  fix shown
  assume n: "processed_warning_id s \<noteq> Some (w_id wn)" and d: "display_alert env1 wn = Inr shown"
  let ?s' = "s\<lparr>display_calls := display_calls s @ [wn],
                alerts := alerts s @ (case shown of None \<Rightarrow> [] | Some a \<Rightarrow> [a]),
                processed_warning_id := Some (w_id wn)\<rparr>"
  have c1: "cycle env1 config s = (Continue, ?s')"
    using cycle_novel [OF assms(1) n] d by simp
  then show "display_calls (snd (cycle env1 config s)) = display_calls s @ [wn]"
    by simp
  have "cycle env2 config ?s' = (Continue, ?s')"
    using assms(2) by (rule cycle_same) simp
  with c1 show "run_cycles config [env1, env2] s = snd (cycle env1 config s)"
    by simp
qed


theorem same_occurrence_notified_once_witness:
  "returned (fetch_and_parse_warning (serving thunderstorm_bulletin) ipswich)
     = Inr (Some thunderstorm) \<and>
   processed_warning_id (notified (w_id thunderstorm)) = Some (w_id thunderstorm) \<and>
   cycle (serving thunderstorm_bulletin) ipswich (notified (w_id thunderstorm))
     = (Continue, notified (w_id thunderstorm)) \<and>
   processed_warning_id fresh \<noteq> Some (w_id thunderstorm) \<and>
   display_alert (serving thunderstorm_bulletin) thunderstorm =
     Inr (Some \<lparr>alert_bg = ''red'', alert_fg = ''black'', alert_title = w_title thunderstorm,
                alert_message = w_message thunderstorm\<rparr>) \<and>
   display_calls (snd (cycle (serving thunderstorm_bulletin) ipswich fresh))
     = display_calls fresh @ [thunderstorm] \<and>
   run_cycles ipswich [serving thunderstorm_bulletin, serving thunderstorm_bulletin] fresh
     = snd (cycle (serving thunderstorm_bulletin) ipswich fresh)"
proof -
  have p: "processed_warning_id (notified (w_id thunderstorm)) = Some (w_id thunderstorm)"
    by (simp add: notified_def)
  have n: "processed_warning_id fresh \<noteq> Some (w_id thunderstorm)"
    by (simp add: fresh_def)
  note t = same_occurrence_notified_once [OF fetch_thunderstorm(1) fetch_thunderstorm(1)]
  from t [of "notified (w_id thunderstorm)"] p
  have "cycle (serving thunderstorm_bulletin) ipswich (notified (w_id thunderstorm))
     = (Continue, notified (w_id thunderstorm))"
    by blast
  moreover from t [of fresh] n display_thunderstorm(1)
  have "display_calls (snd (cycle (serving thunderstorm_bulletin) ipswich fresh))
     = display_calls fresh @ [thunderstorm] \<and>
   run_cycles ipswich [serving thunderstorm_bulletin, serving thunderstorm_bulletin] fresh
     = snd (cycle (serving thunderstorm_bulletin) ipswich fresh)"
    by blast
  ultimately show ?thesis
    using fetch_thunderstorm(1) p n display_thunderstorm(1) by simp
qed

text \<open>
  Claim C8. A pass whose fetch returns \<open>None\<close> goes on to the next pass with
  \<open>processed_warning_id = None\<close>, whatever it was, and calls \<open>display_alert\<close> for
  nothing; a warning fetched in the pass after it is handed to \<open>display_alert\<close>,
  also when its identity is the one stored before the reset.
\<close>

theorem reset_law:
  assumes "returned (fetch_and_parse_warning env config) = Inr None"
  shows "fst (cycle env config s) = Continue \<and>
         processed_warning_id (snd (cycle env config s)) = None \<and>
         display_calls (snd (cycle env config s)) = display_calls s \<and>
         alerts (snd (cycle env config s)) = alerts s \<and>
         (\<forall>env2 wn. returned (fetch_and_parse_warning env2 config) = Inr (Some wn) \<longrightarrow>
            display_calls (run_cycles config [env, env2] s) = display_calls s @ [wn])"
proof -
  let ?s' = "s\<lparr>console := console s @ printed (fetch_and_parse_warning env config),
               processed_warning_id := None\<rparr>"
  have c: "cycle env config s = (Continue, ?s')"
    by (rule cycle_no_warning [OF assms])
  have "display_calls (run_cycles config [env, env2] s) = display_calls s @ [wn]"
    if r: "returned (fetch_and_parse_warning env2 config) = Inr (Some wn)" for env2 wn
  proof -
    have "processed_warning_id ?s' \<noteq> Some (w_id wn)" by simp
    from cycle_novel [OF r this]
    have "display_calls (snd (cycle env2 config ?s')) = display_calls s @ [wn]"
      by (auto simp: handle_def split: sum.splits)
    moreover have "run_cycles config [env, env2] s = snd (cycle env2 config ?s')"
      using c by (auto split: prod.splits control.splits)
    ultimately show ?thesis by simp
  qed
  with c show ?thesis by simp
qed


theorem reset_law_witness:
  "returned (fetch_and_parse_warning file_absent ipswich) = Inr None \<and>
   processed_warning_id (notified (w_id thunderstorm)) = Some (w_id thunderstorm) \<and>
   fst (cycle file_absent ipswich (notified (w_id thunderstorm))) = Continue \<and>
   processed_warning_id (snd (cycle file_absent ipswich (notified (w_id thunderstorm)))) = None \<and>
   display_calls (snd (cycle file_absent ipswich (notified (w_id thunderstorm))))
     = display_calls (notified (w_id thunderstorm)) \<and>
   returned (fetch_and_parse_warning (serving thunderstorm_bulletin) ipswich)
     = Inr (Some thunderstorm) \<and>
   display_calls (run_cycles ipswich [file_absent, serving thunderstorm_bulletin]
                    (notified (w_id thunderstorm)))
     = display_calls (notified (w_id thunderstorm)) @ [thunderstorm]"
proof -
  have p: "processed_warning_id (notified (w_id thunderstorm)) = Some (w_id thunderstorm)"
    by (simp add: notified_def)
  from reset_law [OF fetch_file_absent, of "notified (w_id thunderstorm)"]
    fetch_thunderstorm(1) p fetch_file_absent
  show ?thesis by blast
qed

section \<open>Presentation\<close>

text \<open>
  Claim C9. A new warning whose title is classified \<open>All Clear\<close> is handed to
  \<open>display_alert\<close>, which returns without a window: the alerts shown stay the same
  (and the identity is recorded).
\<close>

theorem all_clear_not_presented:
  assumes "returned (fetch_and_parse_warning env config) = Inr (Some wn)"
    and "processed_warning_id s \<noteq> Some (w_id wn)"
    and "determine_severity (w_title wn) = ''All Clear''"
  shows "display_alert env wn = Inr None \<and>
         cycle env config s =
           (Continue, s\<lparr>display_calls := display_calls s @ [wn],
                        processed_warning_id := Some (w_id wn)\<rparr>) \<and>
         alerts (snd (cycle env config s)) = alerts s"
proof -
  have d: "display_alert env wn = Inr None"
    using assms(3) by (simp add: display_alert_def)
  with cycle_novel [OF assms(1,2)] show ?thesis by simp
qed


theorem all_clear_not_presented_witness:
  "returned (fetch_and_parse_warning (serving cancellation_bulletin) ipswich)
     = Inr (Some cancellation) \<and>
   processed_warning_id fresh \<noteq> Some (w_id cancellation) \<and>
   determine_severity (w_title cancellation) = ''All Clear'' \<and>
   display_alert (serving cancellation_bulletin) cancellation = Inr None \<and>
   alerts (snd (cycle (serving cancellation_bulletin) ipswich fresh)) = alerts fresh \<and>
   processed_warning_id (snd (cycle (serving cancellation_bulletin) ipswich fresh))
     = Some (w_id cancellation)"
proof -
  have n: "processed_warning_id fresh \<noteq> Some (w_id cancellation)"
    by (simp add: fresh_def)
  have a: "determine_severity (w_title cancellation) = ''All Clear''"
    by code_simp
  from all_clear_not_presented [OF fetch_cancellation n a] n a fetch_cancellation
  show ?thesis by simp
qed

text \<open>
  Claim C10. In a pass that fetches a new warning, \<open>processed_warning_id\<close> is the new
  identity after the pass exactly when \<open>display_alert\<close> returned; it returns for an
  \<open>All Clear\<close> title, which shows nothing; when it raises, \<open>processed_warning_id\<close>
  stays as it was, and if the loop goes on (an \<open>Exception\<close>) the same warning fetched
  in the next pass is handed to \<open>display_alert\<close> again and shown if the window works
  then.
\<close>

theorem processed_updated_iff_displayed:
  assumes "returned (fetch_and_parse_warning env config) = Inr (Some wn)"
    and "processed_warning_id s \<noteq> Some (w_id wn)"
  shows "((processed_warning_id (snd (cycle env config s)) = Some (w_id wn))
            = (\<exists>shown. display_alert env wn = Inr shown)) \<and>
         (determine_severity (w_title wn) = ''All Clear'' \<longrightarrow>
            processed_warning_id (snd (cycle env config s)) = Some (w_id wn)) \<and>
         (\<forall>e. display_alert env wn = Inl e \<longrightarrow>
            processed_warning_id (snd (cycle env config s)) = processed_warning_id s \<and>
            (is_Exception e \<longrightarrow>
               (\<forall>env2. returned (fetch_and_parse_warning env2 config) = Inr (Some wn) \<longrightarrow>
                  display_calls (run_cycles config [env, env2] s) = display_calls s @ [wn, wn] \<and>
                  (\<forall>a. display_alert env2 wn = Inr (Some a) \<longrightarrow>
                     alerts (run_cycles config [env, env2] s) = alerts s @ [a]))))"
proof (intro conjI allI impI)
  show "(processed_warning_id (snd (cycle env config s)) = Some (w_id wn))
            = (\<exists>shown. display_alert env wn = Inr shown)"
    using cycle_novel [OF assms] assms(2)
    by (cases "display_alert env wn") (auto simp: handle_def)
next
  assume "determine_severity (w_title wn) = ''All Clear''"
  then have "display_alert env wn = Inr None"
    by (simp add: display_alert_def)
  with cycle_novel [OF assms]
  show "processed_warning_id (snd (cycle env config s)) = Some (w_id wn)"
    by simp
next
  fix e assume "display_alert env wn = Inl e"
  with cycle_novel [OF assms]
  show "processed_warning_id (snd (cycle env config s)) = processed_warning_id s"
    by (simp add: handle_def)
next
  fix e env2
  assume d: "display_alert env wn = Inl e" and ex: "is_Exception e"
    and r: "returned (fetch_and_parse_warning env2 config) = Inr (Some wn)"
  let ?s' = "s\<lparr>display_calls := display_calls s @ [wn],
               console := console s @ [CriticalError e]\<rparr>"
  have c: "cycle env config s = (Continue, ?s')"
    using cycle_novel [OF assms] d ex by (simp add: handle_def is_Exception_def)
  have n: "processed_warning_id ?s' \<noteq> Some (w_id wn)"
    using assms(2) by simp
  have run: "run_cycles config [env, env2] s = snd (cycle env2 config ?s')"
    using c by (auto split: prod.splits control.splits)
  show "display_calls (run_cycles config [env, env2] s) = display_calls s @ [wn, wn]"
    using cycle_novel [OF r n] run by (auto simp: handle_def split: sum.splits)
  fix a assume "display_alert env2 wn = Inr (Some a)"
  then show "alerts (run_cycles config [env, env2] s) = alerts s @ [a]"
    using cycle_novel [OF r n] run by simp
qed



theorem processed_updated_iff_displayed_witness:
  "returned (fetch_and_parse_warning (serving_tk_broken thunderstorm_bulletin) ipswich)
     = Inr (Some thunderstorm) \<and>
   processed_warning_id fresh \<noteq> Some (w_id thunderstorm) \<and>
   display_alert (serving_tk_broken thunderstorm_bulletin) thunderstorm = Inl TclError \<and>
   is_Exception TclError \<and>
   processed_warning_id (snd (cycle (serving_tk_broken thunderstorm_bulletin) ipswich fresh))
     = processed_warning_id fresh \<and>
   processed_warning_id (snd (cycle (serving_tk_broken thunderstorm_bulletin) ipswich fresh))
     \<noteq> Some (w_id thunderstorm) \<and>
   display_calls (run_cycles ipswich
       [serving_tk_broken thunderstorm_bulletin, serving thunderstorm_bulletin] fresh)
     = display_calls fresh @ [thunderstorm, thunderstorm] \<and>
   alerts (run_cycles ipswich
       [serving_tk_broken thunderstorm_bulletin, serving thunderstorm_bulletin] fresh)
     = alerts fresh @ [\<lparr>alert_bg = ''red'', alert_fg = ''black'',
                        alert_title = w_title thunderstorm,
                        alert_message = w_message thunderstorm\<rparr>] \<and>
   returned (fetch_and_parse_warning (serving cancellation_bulletin) ipswich)
     = Inr (Some cancellation) \<and>
   determine_severity (w_title cancellation) = ''All Clear'' \<and>
   processed_warning_id (snd (cycle (serving cancellation_bulletin) ipswich fresh))
     = Some (w_id cancellation)"
proof -
  have n: "processed_warning_id fresh \<noteq> Some (w_id thunderstorm)"
    "processed_warning_id fresh \<noteq> Some (w_id cancellation)"
    by (simp_all add: fresh_def)
  have x: "is_Exception TclError"
    by (simp add: is_Exception_def)
  have a: "determine_severity (w_title cancellation) = ''All Clear''"
    by code_simp
  note t = processed_updated_iff_displayed [OF fetch_thunderstorm(2) n(1)]
  from t display_thunderstorm(2)
  have 1: "processed_warning_id (snd (cycle (serving_tk_broken thunderstorm_bulletin) ipswich fresh))
     = processed_warning_id fresh"
    by blast
  from t display_thunderstorm(2) x fetch_thunderstorm(1)
  have 2: "display_calls (run_cycles ipswich
       [serving_tk_broken thunderstorm_bulletin, serving thunderstorm_bulletin] fresh)
     = display_calls fresh @ [thunderstorm, thunderstorm]"
    by blast
  from t display_thunderstorm x fetch_thunderstorm(1)
  have 3: "alerts (run_cycles ipswich
       [serving_tk_broken thunderstorm_bulletin, serving thunderstorm_bulletin] fresh)
     = alerts fresh @ [\<lparr>alert_bg = ''red'', alert_fg = ''black'',
                        alert_title = w_title thunderstorm,
                        alert_message = w_message thunderstorm\<rparr>]"
    by blast
  from processed_updated_iff_displayed [OF fetch_cancellation n(2)] a
  have 4: "processed_warning_id (snd (cycle (serving cancellation_bulletin) ipswich fresh))
     = Some (w_id cancellation)"
    by blast
  from 1 2 3 4 n x a fetch_thunderstorm(2) display_thunderstorm(2) fetch_cancellation
  show ?thesis by simp
qed

end
